theory Spec2Isabelle
  imports Main "HOL-Library.Sublist"
begin

section \<open>Python string primitives used by gpu\_manager.py\<close>

text \<open>
  Python strings are modelled as \<^typ>\<open>string\<close> (lists of 8-bit characters); the
  outputs of the commands the program reads are taken to be text of code points below 256.
  Each primitive below follows the behaviour of the Python built-in of the same name.
\<close>

definition nl :: string where
  "nl = [CHR 0x0A]"

text \<open>The characters \<open>str.strip()\<close>, \<open>str.split()\<close> and \<open>int()\<close> treat as whitespace.\<close>

definition is_space :: "char \<Rightarrow> bool" where
  "is_space c =
     (c \<in> set [CHR 0x09, CHR 0x0A, CHR 0x0B, CHR 0x0C, CHR 0x0D, CHR 0x1C, CHR 0x1D, CHR 0x1E,
                CHR 0x1F, CHR 0x20, CHR 0x85, CHR 0xA0])"

definition py_strip :: "string \<Rightarrow> string" where
  "py_strip s = rev (dropWhile is_space (rev (dropWhile is_space s)))"

text \<open>\<open>s.split()\<close>: the maximal runs of non-whitespace characters.\<close>

fun split_ws_acc :: "string \<Rightarrow> string \<Rightarrow> string list" where
  "split_ws_acc w [] = (if w = [] then [] else [w])"
| "split_ws_acc w (c # cs) =
     (if is_space c
      then (if w = [] then split_ws_acc [] cs else w # split_ws_acc [] cs)
      else split_ws_acc (w @ [c]) cs)"

definition py_split_ws :: "string \<Rightarrow> string list" where
  "py_split_ws s = split_ws_acc [] s"

text \<open>
  \<open>s.split(sep)\<close> for a non-empty separator (every separator in the program is a
  non-empty literal): the pieces between successive, non-overlapping occurrences of
  \<open>sep\<close> found from the left; empty pieces are kept.
\<close>

function split_acc :: "string \<Rightarrow> string \<Rightarrow> string \<Rightarrow> string list" where
  "split_acc sep w [] = [w]"
| "split_acc sep w (c # cs) =
     (if sep \<noteq> [] \<and> prefix sep (c # cs)
      then w # split_acc sep [] (drop (length sep) (c # cs))
      else split_acc sep (w @ [c]) cs)"
  by pat_completeness auto
termination
  by (relation "measure (\<lambda>(sep, w, s). length s)") auto

definition py_split :: "string \<Rightarrow> string \<Rightarrow> string list" where
  "py_split sep s = split_acc sep [] s"

text \<open>\<open>sub in s\<close>: the substring test.\<close>

fun py_in :: "string \<Rightarrow> string \<Rightarrow> bool" where
  "py_in sub [] = (sub = [])"
| "py_in sub (c # cs) = (prefix sub (c # cs) \<or> py_in sub cs)"

text \<open>
  \<open>int(s)\<close> in base 10: surrounding whitespace is stripped, one sign is allowed, and
  the rest is decimal digits with single underscores between digits. \<open>None\<close> stands for
  the \<open>ValueError\<close> that \<open>int\<close> raises on anything else.
\<close>

definition is_digit :: "char \<Rightarrow> bool" where
  "is_digit c = (c \<in> set ''0123456789'')"

definition digit_val :: "char \<Rightarrow> int" where
  "digit_val c = of_char c - 48"

fun valid_body :: "string \<Rightarrow> bool" where
  "valid_body [] = False"
| "valid_body [c] = is_digit c"
| "valid_body (c # d # cs) =
     (is_digit c \<and> (if d = CHR ''_'' then valid_body cs else valid_body (d # cs)))"

fun digits_value :: "int \<Rightarrow> string \<Rightarrow> int" where
  "digits_value acc [] = acc"
| "digits_value acc (c # cs) =
     (if c = CHR ''_'' then digits_value acc cs
      else digits_value (acc * 10 + digit_val c) cs)"

definition py_int :: "string \<Rightarrow> int option" where
  "py_int s =
     (let t = py_strip s;
          neg = (t \<noteq> [] \<and> hd t = CHR ''-'');
          body = (if t \<noteq> [] \<and> (hd t = CHR ''-'' \<or> hd t = CHR ''+'') then tl t else t)
      in if valid_body body
         then Some (if neg then - digits_value 0 body else digits_value 0 body)
         else None)"

text \<open>\<open>str(n)\<close> for an integer: its decimal representation.\<close>

definition digit_char :: "int \<Rightarrow> char" where
  "digit_char d = ''0123456789'' ! nat d"

function str_digits :: "int \<Rightarrow> string" where
  "str_digits n =
     (if n < 10 then [digit_char n] else str_digits (n div 10) @ [digit_char (n mod 10)])"
  by pat_completeness auto
termination
  by (relation "measure nat") auto

declare str_digits.simps [simp del]

definition py_str :: "int \<Rightarrow> string" where
  "py_str i = (if i < 0 then CHR ''-'' # str_digits (- i) else str_digits i)"

text \<open>\<open>range(a, b)\<close> as a list.\<close>

definition py_range :: "int \<Rightarrow> int \<Rightarrow> int list" where
  "py_range a b = [a..b - 1]"

text \<open>
  A Python \<open>dict\<close> keeps its keys in insertion order; assigning to a key that is
  already present replaces the value and keeps the key's position.
\<close>

fun dict_set :: "('k \<times> 'v) list \<Rightarrow> 'k \<Rightarrow> 'v \<Rightarrow> ('k \<times> 'v) list" where
  "dict_set [] k v = [(k, v)]"
| "dict_set ((k', v') # rest) k v =
     (if k' = k then (k, v) # rest else (k', v') # dict_set rest k v)"

text \<open>The exceptions the modelled code can raise.\<close>

datatype exn = ValueError | IndexError | OSError string

text \<open>\<open>xs[i]\<close> for a non-negative literal index.\<close>

definition py_index :: "'a list \<Rightarrow> nat \<Rightarrow> exn + 'a" where
  "py_index xs i = (if i < length xs then Inr (xs ! i) else Inl IndexError)"

section \<open>The environment\<close>

text \<open>
  Every external command the program runs is a field of the environment: the field holds
  what the command prints, as \<open>safe_subprocess_run\<close> returns it (the empty string when
  the command fails, lines 18 to 28). One polling cycle reads one snapshot.
\<close>

record mount =
  Source :: string

record inspect_info =
  Name :: string
  Mounts :: "mount list"
  HostConfig_Binds :: "string list option option"

text \<open>
  \<open>HostConfig_Binds\<close>: \<open>None\<close> when the key \<open>Binds\<close> is absent from \<open>HostConfig\<close>,
  \<open>Some None\<close> for a JSON \<open>null\<close>, \<open>Some (Some bs)\<close> for a list of strings.
\<close>

text \<open>What the operating system answers during one reclamation (lines 192 to 210).\<close>

record kill_env =
  current_time :: string
  graceful :: "string option"
  alive :: bool
  force :: "string option"
  log_append :: "string option"

text \<open>
  \<open>graceful\<close> and \<open>force\<close>: \<open>None\<close> when \<open>sudo kill\<close> (resp. \<open>sudo kill -9\<close>)
  returns status 0, \<open>Some msg\<close> when \<open>subprocess.run(..., check=True)\<close> raises, with
  \<open>msg\<close> the text of the exception; \<open>alive\<close> is the answer of \<open>psutil.pid_exists\<close>
  after the sleep; \<open>log_append\<close> is \<open>None\<close> when \<open>gpu_kills.log\<close> can be opened and
  written, \<open>Some msg\<close> when that raises.
\<close>

record env =
  squeue :: string
  scontrol :: "string \<Rightarrow> string"
  docker_ls :: string
  docker_inspect :: "string \<Rightarrow> inspect_info option"
  docker_top :: "string \<Rightarrow> string"
  smi_apps :: string
  smi_L :: string
  check_pid_belongs_to_slurm_job :: "int \<Rightarrow> string \<Rightarrow> bool"
  get_process_user :: "int \<Rightarrow> string option"
  ps_cmd :: "int \<Rightarrow> string"
  kill_response :: "nat \<Rightarrow> int \<Rightarrow> kill_env"

text \<open>
  \<open>docker_inspect env cid\<close> is \<open>json.loads(inspect)[0]\<close> (line 75) read at the
  schema of the container runtime, \<open>None\<close> when that expression raises;
  \<open>check_pid_belongs_to_slurm_job env pid jobid\<close> is the result of the process-tree
  test of lines 30 to 47 (a shell pipeline over the live process table);
  \<open>get_process_user env pid\<close> is the result of lines 57 to 63, \<open>None\<close> for Python's
  \<open>None\<close>.
\<close>

section \<open>The scheduler collector: get\_slurm\_jobs (lines 89 to 146)\<close>

record job_info =
  user :: string
  job_name :: string
  state :: string
  node_list :: string
  gpu_indices :: "int list"
  workdir :: string
  runtime :: string

text \<open>\<open>start, end = map(int, part.split('-'))\<close> (line 106).\<close>

definition unpack2_int :: "string list \<Rightarrow> exn + (int \<times> int)" where
  "unpack2_int pieces =
     (case pieces of
        [a, b] \<Rightarrow>
          (case py_int a of
             None \<Rightarrow> Inl ValueError
           | Some x \<Rightarrow> (case py_int b of None \<Rightarrow> Inl ValueError | Some y \<Rightarrow> Inr (x, y)))
      | _ \<Rightarrow> Inl ValueError)"

text \<open>The loop of lines 104 to 112 over the parts of the index specification.\<close>

fun extend_indices :: "int list \<Rightarrow> string list \<Rightarrow> exn + int list" where
  "extend_indices acc [] = Inr acc"
| "extend_indices acc (part # parts) =
     (if py_in ''-'' part
      then (case unpack2_int (py_split ''-'' part) of
              Inl e \<Rightarrow> Inl e
            | Inr (start, end) \<Rightarrow> extend_indices (acc @ py_range start (end + 1)) parts)
      else (case py_int part of
              None \<Rightarrow> extend_indices acc parts
            | Some n \<Rightarrow> extend_indices (acc @ [n]) parts))"

text \<open>
  Lines 101 to 112. The piece at index 1 of the split at \<open>IDX:\<close> is read only when
  \<open>IDX:\<close> occurs in the text, so it exists; a split always has a first piece.
\<close>

definition idx_parts :: "string \<Rightarrow> string list" where
  "idx_parts scontrol_out =
     py_split '','' (hd (py_split '')'' (py_split ''IDX:'' scontrol_out ! 1)))"

definition extract_gpu_indices :: "string \<Rightarrow> exn + int list" where
  "extract_gpu_indices scontrol_out =
     (if py_in ''IDX:'' scontrol_out
      then extend_indices [] (idx_parts scontrol_out)
      else Inr [])"

text \<open>Lines 115 to 117.\<close>

definition extract_workdir :: "string \<Rightarrow> exn + string" where
  "extract_workdir scontrol_out =
     (if py_in ''WorkDir='' scontrol_out
      then py_index (py_split_ws (py_split ''WorkDir='' scontrol_out ! 1)) 0
      else Inr [])"

text \<open>Lines 120 to 129.\<close>

definition format_hms :: "string list \<Rightarrow> exn + string" where
  "format_hms parts =
     (case parts of
        [hours, mins, secs] \<Rightarrow>
          Inr (hours @ '' hours, '' @ mins @ '' minutes, '' @ secs @ '' seconds'')
      | _ \<Rightarrow> Inl ValueError)"

definition format_runtime :: "string \<Rightarrow> exn + string" where
  "format_runtime rt =
     (if py_in ''-'' rt
      then (case py_split ''-'' rt of
              [days, time] \<Rightarrow>
                (case format_hms (py_split '':'' time) of
                   Inl e \<Rightarrow> Inl e
                 | Inr t \<Rightarrow> Inr (days @ '' days, '' @ t))
            | _ \<Rightarrow> Inl ValueError)
      else format_hms (py_split '':'' rt))"

definition extract_runtime :: "string \<Rightarrow> exn + string" where
  "extract_runtime scontrol_out =
     (if py_in ''RunTime='' scontrol_out
      then (case py_index (py_split_ws (py_split ''RunTime='' scontrol_out ! 1)) 0 of
              Inl e \<Rightarrow> Inl e
            | Inr rt \<Rightarrow> format_runtime rt)
      else Inr [])"

text \<open>
  The body of the \<open>try\<close> of lines 96 to 139 for one line of the job listing:
  \<open>Inl e\<close> when it raises \<open>e\<close>, \<open>Inr (job_id, info)\<close> for the entry it stores.
\<close>

definition process_job :: "env \<Rightarrow> string \<Rightarrow> exn + (string \<times> job_info)" where
  "process_job env job =
     (case py_split_ws job of
        [job_id, usr, jname, st, nodes] \<Rightarrow>
          (case extract_gpu_indices (scontrol env job_id) of
             Inl e \<Rightarrow> Inl e
           | Inr idxs \<Rightarrow>
               (case extract_workdir (scontrol env job_id) of
                  Inl e \<Rightarrow> Inl e
                | Inr wd \<Rightarrow>
                    (case extract_runtime (scontrol env job_id) of
                       Inl e \<Rightarrow> Inl e
                     | Inr rt \<Rightarrow>
                         Inr (job_id,
                              \<lparr>user = usr, job_name = jname, state = st, node_list = nodes,
                               gpu_indices = idxs, workdir = wd, runtime = rt\<rparr>))))
      | _ \<Rightarrow> Inl ValueError)"

text \<open>
  The loop of line 95: a job whose processing raises is reported and skipped
  (lines 140 to 142), the others are stored under their job id.
\<close>

fun collect_jobs :: "env \<Rightarrow> (string \<times> job_info) list \<Rightarrow> string list \<Rightarrow> (string \<times> job_info) list" where
  "collect_jobs env slurm_jobs [] = slurm_jobs"
| "collect_jobs env slurm_jobs (job # jobs) =
     (case process_job env job of
        Inl e \<Rightarrow> collect_jobs env slurm_jobs jobs
      | Inr (job_id, info) \<Rightarrow> collect_jobs env (dict_set slurm_jobs job_id info) jobs)"

definition get_slurm_jobs :: "env \<Rightarrow> (string \<times> job_info) list" where
  "get_slurm_jobs env = collect_jobs env [] (py_split nl (py_strip (squeue env)))"

section \<open>The container collector: get\_container\_info (lines 65 to 87)\<close>

record container_info =
  c_name :: string
  c_mount_path :: string
  c_user :: string
  c_binds :: "string list option"
  c_source :: string

text \<open>
  The dictionary built at lines 76 to 82 (keys \<open>name\<close>, \<open>mount_path\<close>, \<open>user\<close>,
  \<open>binds\<close>, \<open>source\<close>). \<open>c_binds\<close> is \<open>None\<close> for Python's \<open>None\<close>. The
  expression \<open>Source.split('/')[2]\<close> raises \<open>IndexError\<close> when the path has fewer
  than three pieces.
\<close>

definition container_record :: "inspect_info \<Rightarrow> exn + container_info" where
  "container_record info =
     (let bs = (case HostConfig_Binds info of None \<Rightarrow> Some [] | Some b \<Rightarrow> b)
      in case Mounts info of
           [] \<Rightarrow>
             Inr \<lparr>c_name = Name info, c_mount_path = [], c_user = ''unknown'',
                  c_binds = bs, c_source = []\<rparr>
         | m # _ \<Rightarrow>
             (case py_index (py_split ''/'' (Source m)) 2 of
                Inl e \<Rightarrow> Inl e
              | Inr u \<Rightarrow>
                  Inr \<lparr>c_name = Name info, c_mount_path = Source m, c_user = u,
                       c_binds = bs, c_source = Source m\<rparr>))"

fun collect_containers ::
  "env \<Rightarrow> (string \<times> container_info) list \<Rightarrow> string list \<Rightarrow> (string \<times> container_info) list" where
  "collect_containers env containers [] = containers"
| "collect_containers env containers (cid # cids) =
     (if cid = [] then collect_containers env containers cids
      else (case docker_inspect env cid of
              None \<Rightarrow> collect_containers env containers cids
            | Some info \<Rightarrow>
                (case container_record info of
                   Inl e \<Rightarrow> collect_containers env containers cids
                 | Inr r \<Rightarrow> collect_containers env (dict_set containers cid r) cids)))"

definition get_container_info :: "env \<Rightarrow> (string \<times> container_info) list" where
  "get_container_info env = collect_containers env [] (py_split nl (py_strip (docker_ls env)))"

section \<open>The GPU collector: get\_gpu\_processes (lines 148 to 165)\<close>

text \<open>The \<open>enumerate\<close> loop of lines 158 to 161: the first device line that contains the uuid.\<close>

fun find_gpu :: "string \<Rightarrow> string list \<Rightarrow> nat \<Rightarrow> nat option" where
  "find_gpu gpu_uuid [] idx = None"
| "find_gpu gpu_uuid (info # rest) idx =
     (if py_in gpu_uuid info then Some idx else find_gpu gpu_uuid rest (Suc idx))"

text \<open>
  The \<open>defaultdict(list)\<close> is a function from device index to the list of
  \<open>(pid, memory)\<close>, empty where nothing was appended. A line that does not unpack into
  three fields, or whose pid is not an integer, raises \<open>ValueError\<close>, which the handler of
  line 162 catches outside the loop: the lines after it are not read.
\<close>

fun collect_gpu ::
  "string list \<Rightarrow> (nat \<Rightarrow> (int \<times> string) list) \<Rightarrow> string list \<Rightarrow> (nat \<Rightarrow> (int \<times> string) list)" where
  "collect_gpu gpu_info gpu_processes [] = gpu_processes"
| "collect_gpu gpu_info gpu_processes (line # lines) =
     (if line = [] then collect_gpu gpu_info gpu_processes lines
      else (case py_split '', '' line of
              [gpu_uuid, pid, memory] \<Rightarrow>
                (case find_gpu gpu_uuid gpu_info 0 of
                   None \<Rightarrow> collect_gpu gpu_info gpu_processes lines
                 | Some idx \<Rightarrow>
                     (case py_int pid of
                        None \<Rightarrow> gpu_processes
                      | Some p \<Rightarrow>
                          collect_gpu gpu_info
                            (gpu_processes(idx := gpu_processes idx @ [(p, memory)])) lines))
            | _ \<Rightarrow> gpu_processes))"

definition get_gpu_processes :: "env \<Rightarrow> nat \<Rightarrow> (int \<times> string) list" where
  "get_gpu_processes env =
     collect_gpu (py_split nl (py_strip (smi_L env))) (\<lambda>_. [])
       (py_split nl (py_strip (smi_apps env)))"

section \<open>Reclamation: kill\_non\_slurm\_process (lines 167 to 210)\<close>

record process_info =
  p_memory :: string
  p_type :: string
  p_user :: "string option"
  p_command :: string
  p_container_name :: "string option"
  p_mount_source :: "string option"
  p_container_binds :: "string option"

text \<open>How an f-string renders a value that may be \<open>None\<close>.\<close>

definition fmt :: "string option \<Rightarrow> string" where
  "fmt v = (case v of None \<Rightarrow> ''None'' | Some s \<Rightarrow> s)"

text \<open>The audit record assembled at lines 170 to 190.\<close>

definition build_log_message :: "string \<Rightarrow> int \<Rightarrow> process_info \<Rightarrow> string" where
  "build_log_message now pid process_info =
     nl @ ''Process killed at '' @ now @ '':'' @ nl
     @ ''PID '' @ py_str pid @ '' (Live GPU Memory: '' @ p_memory process_info @ '' MiB):'' @ nl
     @ ''  - Execution Type: '' @ p_type process_info @ nl
     @ ''  - Resource Management: Non-SLURM'' @ nl
     @ ''  - Live GPU Memory Usage: '' @ p_memory process_info @ '' MiB''
     @ (if p_type process_info = ''Container''
        then nl @ ''  - Container Name: '' @ fmt (p_container_name process_info) @ nl
             @ ''  - Container User: '' @ fmt (p_user process_info) @ nl
             @ ''  - Mount Source: '' @ fmt (p_mount_source process_info) @ nl
             @ ''  - Container Binds: '' @ fmt (p_container_binds process_info)
        else nl @ ''  - User: '' @ fmt (p_user process_info))
     @ nl @ ''  - Command: '' @ p_command process_info @ nl
     @ ''Killed PID '' @ py_str pid @ '' successfully (Non-SLURM process)'' @ nl
     @ ''----------------------------------------'' @ nl"

definition force_marker :: string where
  "force_marker = ''Force kill was required'' @ nl"

text \<open>
  What the function does to the outside world, in order: the signals it asks \<open>sudo kill\<close>
  to send (\<open>SendSignal\<close> records the attempt, whether or not the command succeeds), the
  sleep, the liveness query, what it appends to \<open>gpu_kills.log\<close> and what it prints.
\<close>

datatype signal = SIGTERM | SIGKILL

datatype event =
    SendSignal signal int
  | Sleep nat
  | PidExists int
  | AppendLog string
  | Print string

fun is_signal :: "event \<Rightarrow> bool" where
  "is_signal (SendSignal sg p) = True"
| "is_signal ev = False"

fun is_wait :: "event \<Rightarrow> bool" where
  "is_wait (Sleep n) = True"
| "is_wait ev = False"

fun is_log :: "event \<Rightarrow> bool" where
  "is_log (AppendLog s) = True"
| "is_log ev = False"

text \<open>
  The handler of lines 206 to 210. Its own write to the log is not protected: when it
  raises, the exception leaves the function (second component).
\<close>

definition kill_handler :: "kill_env \<Rightarrow> int \<Rightarrow> string \<Rightarrow> event list \<times> exn option" where
  "kill_handler kenv pid msg =
     (let error_msg = ''Error killing PID '' @ py_str pid @ '': '' @ msg @ nl
      in case log_append kenv of
           None \<Rightarrow> ([Print error_msg, AppendLog error_msg], None)
         | Some m \<Rightarrow> ([Print error_msg], Some (OSError m)))"

text \<open>Lines 201 to 204, inside the \<open>try\<close>.\<close>

definition write_record :: "kill_env \<Rightarrow> int \<Rightarrow> string \<Rightarrow> event list \<times> exn option" where
  "write_record kenv pid log_message =
     (case log_append kenv of
        None \<Rightarrow>
          ([AppendLog log_message,
            Print (''Successfully terminated PID '' @ py_str pid
                   @ '' - See gpu_kills.log for details'')], None)
      | Some m \<Rightarrow> kill_handler kenv pid m)"

definition after :: "event list \<Rightarrow> event list \<times> exn option \<Rightarrow> event list \<times> exn option" where
  "after evs r = (evs @ fst r, snd r)"

definition kill_non_slurm_process ::
  "kill_env \<Rightarrow> int \<Rightarrow> process_info \<Rightarrow> event list \<times> exn option" where
  "kill_non_slurm_process kenv pid process_info =
     (let log_message = build_log_message (current_time kenv) pid process_info
      in case graceful kenv of
           Some msg \<Rightarrow> after [SendSignal SIGTERM pid] (kill_handler kenv pid msg)
         | None \<Rightarrow>
             (if alive kenv
              then (case force kenv of
                      Some msg \<Rightarrow>
                        after [SendSignal SIGTERM pid, Sleep 5, PidExists pid,
                               SendSignal SIGKILL pid]
                          (kill_handler kenv pid msg)
                    | None \<Rightarrow>
                        after [SendSignal SIGTERM pid, Sleep 5, PidExists pid,
                               SendSignal SIGKILL pid]
                          (write_record kenv pid (log_message @ force_marker)))
              else after [SendSignal SIGTERM pid, Sleep 5, PidExists pid]
                     (write_record kenv pid log_message)))"

section \<open>Attribution and the polling cycle: analyze\_gpu\_usage (lines 213 to 324)\<close>

text \<open>Lines 233 to 237: the jobs whose index list holds this device, in listing order.\<close>

definition gpu_specific_jobs :: "(string \<times> job_info) list \<Rightarrow> nat \<Rightarrow> (string \<times> job_info) list" where
  "gpu_specific_jobs slurm_info gpu_id =
     filter (\<lambda>(job_id, info). int gpu_id \<in> set (gpu_indices info)) slurm_info"

text \<open>
  Lines 244 to 251: the containers are tried in the order of the dictionary; the test is
  \<open>str(pid) in\<close> the text printed by \<open>docker top\<close>, and the first hit ends the loop.
\<close>

fun find_container :: "env \<Rightarrow> int \<Rightarrow> (string \<times> container_info) list \<Rightarrow> container_info option" where
  "find_container env pid [] = None"
| "find_container env pid ((cid, info) # rest) =
     (if py_in (py_str pid) (docker_top env cid) then Some info
      else find_container env pid rest)"

text \<open>Lines 256 to 268.\<close>

fun find_job ::
  "env \<Rightarrow> int \<Rightarrow> container_info option \<Rightarrow> (string \<times> job_info) list \<Rightarrow> string option" where
  "find_job env pid container [] = None"
| "find_job env pid container ((job_id, info) # rest) =
     (if check_pid_belongs_to_slurm_job env pid job_id
      then (case container of
              Some c \<Rightarrow>
                (if c_user c = user info then Some job_id
                 else find_job env pid container rest)
            | None \<Rightarrow>
                (if get_process_user env pid = Some (user info) then Some job_id
                 else find_job env pid container rest))
      else find_job env pid container rest)"

text \<open>\<open>', '.join(xs)\<close>.\<close>

fun py_join :: "string \<Rightarrow> string list \<Rightarrow> string" where
  "py_join sep [] = []"
| "py_join sep [x] = x"
| "py_join sep (x # y # ys) = x @ sep @ py_join sep (y # ys)"

text \<open>Line 270; an empty string is false in a Python condition.\<close>

definition slurm_status_of :: "string option \<Rightarrow> string" where
  "slurm_status_of slurm_job_id =
     (case slurm_job_id of
        None \<Rightarrow> ''Non-SLURM''
      | Some j \<Rightarrow> (if j \<noteq> [] then ''SLURM & belongs to Jobid '' @ j else ''Non-SLURM''))"

text \<open>The dictionary passed to \<open>kill_non_slurm_process\<close> at lines 273 to 281.\<close>

definition make_process_info ::
  "env \<Rightarrow> int \<Rightarrow> string \<Rightarrow> container_info option \<Rightarrow> process_info" where
  "make_process_info env pid memory container =
     \<lparr>p_memory = memory,
      p_type = (if container \<noteq> None then ''Container'' else ''Bare Metal''),
      p_user = (case container of None \<Rightarrow> get_process_user env pid | Some c \<Rightarrow> Some (c_user c)),
      p_command = py_strip (ps_cmd env pid),
      p_container_name = map_option c_name container,
      p_mount_source = map_option c_source container,
      p_container_binds =
        (case container of
           None \<Rightarrow> None
         | Some c \<Rightarrow>
             (case c_binds c of
                None \<Rightarrow> None
              | Some bs \<Rightarrow> (if bs \<noteq> [] then Some (py_join '', '' bs) else None)))\<rparr>"

text \<open>
  What one pass of the loop body of lines 242 to 306 computes and does for one entry
  \<open>(pid, memory)\<close> of device \<open>gpu_id\<close>: the container found, the job found, the status
  string, the events of the reclamation if one was started, and the exception the handler
  of line 304 caught, if any.
\<close>

record entry =
  e_gpu :: nat
  e_pid :: int
  e_container :: "container_info option"
  e_process_type :: string
  e_slurm_job_id :: "string option"
  e_slurm_status :: string
  e_events :: "event list"
  e_caught :: "exn option"

definition process_entry ::
  "env \<Rightarrow> nat \<Rightarrow> (string \<times> job_info) list \<Rightarrow> (string \<times> container_info) list
     \<Rightarrow> int \<times> string \<Rightarrow> entry" where
  "process_entry env gpu_id jobs containers pm =
     (let pid = fst pm; memory = snd pm;
          container = find_container env pid containers;
          slurm_job_id = find_job env pid container jobs;
          slurm_status = slurm_status_of slurm_job_id;
          r = (if slurm_status = ''Non-SLURM''
               then kill_non_slurm_process (kill_response env gpu_id pid) pid
                      (make_process_info env pid memory container)
               else ([], None))
      in \<lparr>e_gpu = gpu_id, e_pid = pid, e_container = container,
          e_process_type = (if container \<noteq> None then ''Container'' else ''Bare Metal''),
          e_slurm_job_id = slurm_job_id, e_slurm_status = slurm_status,
          e_events = fst r, e_caught = snd r\<rparr>)"

text \<open>
  The verdict of the specification read off the two strings the program computes:
  \<open>slurm_status\<close> decides between orphan and scheduler-owned, \<open>process_type\<close> between
  bare metal and container.
\<close>

datatype classification = SCHEDULER_OWNED | CONTAINER_SCHEDULER_OWNED | ORPHAN

definition classification_of :: "entry \<Rightarrow> classification" where
  "classification_of e =
     (if e_slurm_status e = ''Non-SLURM'' then ORPHAN
      else if e_process_type e = ''Container'' then CONTAINER_SCHEDULER_OWNED
      else SCHEDULER_OWNED)"

text \<open>
  Lines 216 to 320 without the report: the three collectors, the number of devices
  (line 225), and the entries of every device in turn.
\<close>

definition analyze_body :: "env \<Rightarrow> entry list" where
  "analyze_body env =
     (let slurm_info = get_slurm_jobs env;
          containers = get_container_info env;
          gpu_processes = get_gpu_processes env;
          total_gpus = length (py_split nl (py_strip (smi_L env)))
      in concat (map (\<lambda>gpu_id.
                        map (process_entry env gpu_id (gpu_specific_jobs slurm_info gpu_id)
                               containers)
                            (gpu_processes gpu_id))
                     [0..<total_gpus]))"




section \<open>The attribution rule in the words of the specification\<close>

text \<open>
  Step 4 of the specification: the ownership identity matches when the container's owner
  equals the job's owner for a process inside a container, and when the owner the
  operating system reports for the process equals the job's owner for a bare-metal one.
  A candidate is accepted when the process-tree test succeeds and the identity matches.
\<close>

definition ownership_matches :: "env \<Rightarrow> int \<Rightarrow> container_info option \<Rightarrow> job_info \<Rightarrow> bool" where
  "ownership_matches env pid container info =
     (case container of
        Some c \<Rightarrow> c_user c = user info
      | None \<Rightarrow> get_process_user env pid = Some (user info))"

definition accepts :: "env \<Rightarrow> int \<Rightarrow> container_info option \<Rightarrow> string \<times> job_info \<Rightarrow> bool" where
  "accepts env pid container j =
     (check_pid_belongs_to_slurm_job env pid (fst j)
      \<and> ownership_matches env pid container (snd j))"

section \<open>Concrete inputs\<close>

text \<open>
  Scenarios A, B and C of the specification in one snapshot: job 123 of alice on devices
  0 and 1, job 456 of carol on device 1; pid 5000 of alice on device 0 under job 123,
  pid 7000 inside container c1 (mounted from /home/carol/data) on device 1 under job 456,
  pid 6000 of bob on device 2, which no job covers.
\<close>

definition scenario_kill :: kill_env where
  "scenario_kill =
     \<lparr>current_time = ''2024-01-01 00:00:00'', graceful = None, alive = False,
      force = None, log_append = None\<rparr>"

definition scenario_env :: env where
  "scenario_env =
     \<lparr>squeue = ''123 alice train RUNNING dgx1'' @ nl @ ''456 carol eval RUNNING dgx1'' @ nl,
      scontrol = (\<lambda>j. if j = ''123'' then ''GRES=gpu(IDX:0-1) WorkDir=/w RunTime=00:01:02 ''
                       else ''GRES=gpu(IDX:1) WorkDir=/v RunTime=1-00:01:02 ''),
      docker_ls = ''c1'' @ nl,
      docker_inspect = (\<lambda>c. if c = ''c1''
         then Some \<lparr>Name = ''/c1'', Mounts = [\<lparr>Source = ''/home/carol/data''\<rparr>],
                    HostConfig_Binds = Some None\<rparr>
         else None),
      docker_top = (\<lambda>c. ''UID PID PPID'' @ nl @ ''root 7000 1''),
      smi_apps = ''GPU-a, 5000, 100'' @ nl @ ''GPU-b, 7000, 200'' @ nl @ ''GPU-c, 6000, 10'' @ nl,
      smi_L = ''GPU 0: A100 (UUID: GPU-a)'' @ nl @ ''GPU 1: A100 (UUID: GPU-b)'' @ nl
              @ ''GPU 2: A100 (UUID: GPU-c)'' @ nl,
      check_pid_belongs_to_slurm_job =
        (\<lambda>p j. (p = 5000 \<and> j = ''123'') \<or> (p = 7000 \<and> j = ''456'')),
      get_process_user = (\<lambda>p. if p = 5000 then Some ''alice'' else Some ''bob''),
      ps_cmd = (\<lambda>p. ''python x.py'' @ nl),
      kill_response = (\<lambda>g p. scenario_kill)\<rparr>"


text \<open>
  Two running containers, c1 of carol and c2 without mounts, whose process listings are
  \<open>top1\<close> and \<open>top2\<close>, and one GPU process, pid 7000 on device 0.
\<close>

definition container_env :: "string \<Rightarrow> string \<Rightarrow> env" where
  "container_env top1 top2 =
     scenario_env
       \<lparr>docker_ls := ''c1'' @ nl @ ''c2'' @ nl,
        docker_inspect := (\<lambda>c.
           if c = ''c1''
           then Some \<lparr>Name = ''/c1'', Mounts = [\<lparr>Source = ''/home/carol/data''\<rparr>],
                      HostConfig_Binds = Some None\<rparr>
           else if c = ''c2''
           then Some \<lparr>Name = ''/c2'', Mounts = [], HostConfig_Binds = None\<rparr>
           else None),
        docker_top := (\<lambda>c. if c = ''c1'' then top1 else top2),
        smi_apps := ''GPU-a, 7000, 200'' @ nl\<rparr>"

text \<open>The records the container collector builds for c1 and c2.\<close>

definition c1_record :: container_info where
  "c1_record =
     \<lparr>c_name = ''/c1'', c_mount_path = ''/home/carol/data'', c_user = ''carol'',
      c_binds = None, c_source = ''/home/carol/data''\<rparr>"

definition c2_record :: container_info where
  "c2_record =
     \<lparr>c_name = ''/c2'', c_mount_path = [], c_user = ''unknown'',
      c_binds = Some [], c_source = []\<rparr>"

text \<open>Scenario E: the process has gone when the first signal is sent.\<close>

definition vanished_kill :: kill_env where
  "vanished_kill = scenario_kill \<lparr>graceful := Some ''exit status 1''\<rparr>"

definition stubborn_kill :: kill_env where
  "stubborn_kill = scenario_kill \<lparr>alive := True\<rparr>"

definition bob_info :: process_info where
  "bob_info =
     \<lparr>p_memory = ''10'', p_type = ''Bare Metal'', p_user = Some ''bob'',
      p_command = ''python x.py'', p_container_name = None, p_mount_source = None,
      p_container_binds = None\<rparr>"


section \<open>Auxiliary facts\<close>

lemma py_in_sublist: "py_in sub s = sublist sub s"
  by (induction s) (auto simp: sublist_Cons_right)

lemma split_ws_acc_nonempty: "x \<in> set (split_ws_acc w s) \<Longrightarrow> x \<noteq> []"
  by (induction s arbitrary: w) (auto split: if_splits)

lemma py_split_ws_nonempty: "x \<in> set (py_split_ws s) \<Longrightarrow> x \<noteq> []"
  unfolding py_split_ws_def by (rule split_ws_acc_nonempty)

lemma process_job_fields:
  assumes "process_job env job = Inr (job_id, info)"
  shows "\<exists>usr jname st nodes. py_split_ws job = [job_id, usr, jname, st, nodes]"
  using assms unfolding process_job_def
  by (auto split: list.splits sum.splits)

lemma process_job_id_nonempty:
  assumes "process_job env job = Inr (job_id, info)"
  shows "job_id \<noteq> []"
proof -
  from process_job_fields [OF assms] obtain usr jname st nodes
    where "py_split_ws job = [job_id, usr, jname, st, nodes]" by blast
  then have "job_id \<in> set (py_split_ws job)" by simp
  then show ?thesis by (rule py_split_ws_nonempty)
qed

lemma dict_set_keys: "fst ` set (dict_set d k v) = insert k (fst ` set d)"
  by (induction d) (force split: if_splits)+

lemma dict_set_distinct: "distinct (map fst d) \<Longrightarrow> distinct (map fst (dict_set d k v))"
proof (induction d)
  case Nil
  then show ?case by simp
next
  case (Cons a d)
  obtain k' v' where a: "a = (k', v')" by (cases a)
  show ?case
  proof (cases "k' = k")
    case True
    with Cons.prems a show ?thesis by simp
  next
    case False
    with Cons a show ?thesis by (simp add: dict_set_keys)
  qed
qed

lemma dict_set_entries:
  "(k', v') \<in> set (dict_set d k v) \<Longrightarrow> (k', v') \<in> set d \<or> (k' = k \<and> v' = v)"
  by (induction d) (auto split: if_splits)

lemma collect_jobs_distinct:
  "distinct (map fst acc) \<Longrightarrow> distinct (map fst (collect_jobs env acc jobs))"
  by (induction jobs arbitrary: acc) (auto split: sum.splits simp: dict_set_distinct)

lemma collect_jobs_ids_nonempty:
  "\<forall>k \<in> fst ` set acc. k \<noteq> [] \<Longrightarrow> \<forall>k \<in> fst ` set (collect_jobs env acc jobs). k \<noteq> []"
proof (induction jobs arbitrary: acc)
  case Nil
  then show ?case by simp
next
  case (Cons job jobs)
  show ?case
  proof (cases "process_job env job")
    case (Inl e)
    with Cons show ?thesis by simp
  next
    case (Inr p)
    obtain job_id info where p: "p = (job_id, info)" by (cases p)
    from Inr p have "job_id \<noteq> []" by (auto dest: process_job_id_nonempty)
    with Cons.prems have "\<forall>k \<in> fst ` set (dict_set acc job_id info). k \<noteq> []"
      by (simp add: dict_set_keys)
    from Cons.IH [OF this] Inr p show ?thesis by simp
  qed
qed

lemma get_slurm_jobs_distinct: "distinct (map fst (get_slurm_jobs env))"
  unfolding get_slurm_jobs_def by (rule collect_jobs_distinct) simp

lemma get_slurm_jobs_ids_nonempty: "(job_id, info) \<in> set (get_slurm_jobs env) \<Longrightarrow> job_id \<noteq> []"
  using collect_jobs_ids_nonempty [of "[]" env "py_split nl (py_strip (squeue env))"]
  unfolding get_slurm_jobs_def by force

lemma entries_of_analyze_body:
  assumes "e \<in> set (analyze_body env)"
  shows "\<exists>pm \<in> set (get_gpu_processes env (e_gpu e)).
           e = process_entry env (e_gpu e) (gpu_specific_jobs (get_slurm_jobs env) (e_gpu e))
                 (get_container_info env) pm"
  using assms unfolding analyze_body_def Let_def
  by (auto simp: process_entry_def Let_def)


lemma find_job_first:
  "find_job env pid c jobs = map_option fst (find (accepts env pid c) jobs)"
  by (induction jobs) (auto simp: accepts_def ownership_matches_def split: option.splits)

lemma find_container_first:
  "find_container env pid cs =
     map_option snd (find (\<lambda>c. py_in (py_str pid) (docker_top env (fst c))) cs)"
  by (induction cs) auto

lemma slurm_status_of_Non_SLURM:
  "slurm_status_of j = ''Non-SLURM'' \<longleftrightarrow> (j = None \<or> j = Some [])"
  by (auto simp: slurm_status_of_def split: option.splits)


lemma find_job_id_nonempty:
  assumes "find_job env pid c (gpu_specific_jobs (get_slurm_jobs env) g) = Some j"
  shows "j \<noteq> []"
proof -
  from assms obtain x where x: "find (accepts env pid c) (gpu_specific_jobs (get_slurm_jobs env) g) = Some x"
    and j: "j = fst x" by (auto simp: find_job_first)
  from x have "x \<in> set (gpu_specific_jobs (get_slurm_jobs env) g)"
    by (auto simp: find_Some_iff)
  then have "x \<in> set (get_slurm_jobs env)" by (simp add: gpu_specific_jobs_def)
  with j show ?thesis using get_slurm_jobs_ids_nonempty [of "fst x" "snd x" env] by simp
qed




lemma kill_cases:
  "kill_non_slurm_process kenv pid pinfo =
     (case graceful kenv of
        Some msg \<Rightarrow> after [SendSignal SIGTERM pid] (kill_handler kenv pid msg)
      | None \<Rightarrow>
          (if alive kenv
           then (case force kenv of
                   Some msg \<Rightarrow>
                     after [SendSignal SIGTERM pid, Sleep 5, PidExists pid, SendSignal SIGKILL pid]
                       (kill_handler kenv pid msg)
                 | None \<Rightarrow>
                     after [SendSignal SIGTERM pid, Sleep 5, PidExists pid, SendSignal SIGKILL pid]
                       (write_record kenv pid
                          (build_log_message (current_time kenv) pid pinfo @ force_marker)))
           else after [SendSignal SIGTERM pid, Sleep 5, PidExists pid]
                  (write_record kenv pid (build_log_message (current_time kenv) pid pinfo))))"
  by (simp add: kill_non_slurm_process_def Let_def)

lemma handler_no_signal: "filter is_signal (fst (kill_handler kenv pid msg)) = []"
  by (simp add: kill_handler_def Let_def split: option.splits)

lemma handler_no_wait: "filter is_wait (fst (kill_handler kenv pid msg)) = []"
  by (simp add: kill_handler_def Let_def split: option.splits)

lemma write_no_signal: "filter is_signal (fst (write_record kenv pid m)) = []"
  by (simp add: write_record_def handler_no_signal split: option.splits)

lemma write_no_wait: "filter is_wait (fst (write_record kenv pid m)) = []"
  by (simp add: write_record_def handler_no_wait split: option.splits)

lemma kill_signals:
  "filter is_signal (fst (kill_non_slurm_process kenv pid pinfo)) =
     SendSignal SIGTERM pid
       # (if graceful kenv = None \<and> alive kenv then [SendSignal SIGKILL pid] else [])"
  by (simp add: kill_cases after_def handler_no_signal write_no_signal split: option.splits)

lemma kill_waits:
  "filter is_wait (fst (kill_non_slurm_process kenv pid pinfo)) =
     (if graceful kenv = None then [Sleep 5] else [])"
  by (simp add: kill_cases after_def handler_no_wait write_no_wait split: option.splits)

lemma kill_order:
  "graceful kenv = None \<Longrightarrow>
     take 3 (fst (kill_non_slurm_process kenv pid pinfo))
       = [SendSignal SIGTERM pid, Sleep 5, PidExists pid]
     \<and> (alive kenv \<longrightarrow> fst (kill_non_slurm_process kenv pid pinfo) ! 3 = SendSignal SIGKILL pid)"
  by (simp add: kill_cases after_def split: option.splits)

lemma kill_success_log:
  "graceful kenv = None \<Longrightarrow> (alive kenv \<longrightarrow> force kenv = None) \<Longrightarrow> log_append kenv = None \<Longrightarrow>
     filter is_log (fst (kill_non_slurm_process kenv pid pinfo))
       = [AppendLog (build_log_message (current_time kenv) pid pinfo
                     @ (if alive kenv then force_marker else []))]
     \<and> snd (kill_non_slurm_process kenv pid pinfo) = None"
  by (simp add: kill_cases after_def write_record_def split: option.splits)

lemma suffix_of_long_tail:
  assumes "suffix a (xs @ c)" and "length a \<le> length c"
  shows "suffix a c"
proof -
  from assms(1) obtain p where "xs @ c = p @ a" by (auto simp: suffix_def)
  with assms(2) show ?thesis by (auto simp: append_eq_append_conv2 suffix_def)
qed

lemma marker_not_in_plain_record:
  "\<not> suffix force_marker (build_log_message now pid pinfo)"
proof
  assume a: "suffix force_marker (build_log_message now pid pinfo)"
  obtain xs where b: "build_log_message now pid pinfo = xs @ (''----------------------------------------'' @ nl)"
    by (simp add: build_log_message_def)
  have "length force_marker \<le> length (''----------------------------------------'' @ nl)"
    by (simp add: force_marker_def nl_def)
  with a b have "suffix force_marker (''----------------------------------------'' @ nl)"
    by (metis suffix_of_long_tail)
  then show False
    by (simp add: force_marker_def nl_def suffix_to_prefix)
qed

lemma marker_in_forced_record:
  "suffix force_marker (build_log_message now pid pinfo @ force_marker)"
  by (simp add: suffix_def)

section \<open>Reclamation\<close>

text \<open>
  C7. A reclamation first sends the graceful signal; when that succeeds it sleeps 5 seconds,
  which is its only wait, then asks whether the process still exists, and sends the forced
  signal exactly when it does. When every step succeeds, exactly one record is appended to
  the log, and the record ends with the forced-kill marker if and only if the forced signal
  was sent.
\<close>

theorem C7_two_phase_termination:
  "hd (fst (kill_non_slurm_process kenv pid pinfo)) = SendSignal SIGTERM pid
   \<and> filter is_signal (fst (kill_non_slurm_process kenv pid pinfo))
       = SendSignal SIGTERM pid
           # (if graceful kenv = None \<and> alive kenv then [SendSignal SIGKILL pid] else [])
   \<and> filter is_wait (fst (kill_non_slurm_process kenv pid pinfo))
       = (if graceful kenv = None then [Sleep 5] else [])
   \<and> (graceful kenv = None \<longrightarrow>
         take 3 (fst (kill_non_slurm_process kenv pid pinfo))
           = [SendSignal SIGTERM pid, Sleep 5, PidExists pid]
         \<and> (alive kenv \<longrightarrow>
              fst (kill_non_slurm_process kenv pid pinfo) ! 3 = SendSignal SIGKILL pid))
   \<and> (graceful kenv = None \<and> (alive kenv \<longrightarrow> force kenv = None) \<and> log_append kenv = None \<longrightarrow>
         (\<exists>written.
            filter is_log (fst (kill_non_slurm_process kenv pid pinfo)) = [AppendLog written]
            \<and> written = build_log_message (current_time kenv) pid pinfo
                         @ (if alive kenv then force_marker else [])
            \<and> (suffix force_marker written
                 \<longleftrightarrow> SendSignal SIGKILL pid \<in> set (fst (kill_non_slurm_process kenv pid pinfo)))
            \<and> snd (kill_non_slurm_process kenv pid pinfo) = None))"
proof (intro conjI impI)
  show "hd (fst (kill_non_slurm_process kenv pid pinfo)) = SendSignal SIGTERM pid"
    by (simp add: kill_cases after_def split: option.splits)
next
  show "filter is_signal (fst (kill_non_slurm_process kenv pid pinfo))
          = SendSignal SIGTERM pid
              # (if graceful kenv = None \<and> alive kenv then [SendSignal SIGKILL pid] else [])"
    by (rule kill_signals)
next
  show "filter is_wait (fst (kill_non_slurm_process kenv pid pinfo))
          = (if graceful kenv = None then [Sleep 5] else [])"
    by (rule kill_waits)
next
  assume "graceful kenv = None"
  then show "take 3 (fst (kill_non_slurm_process kenv pid pinfo))
               = [SendSignal SIGTERM pid, Sleep 5, PidExists pid]"
    by (simp add: kill_order)
next
  assume "graceful kenv = None" and "alive kenv"
  then show "fst (kill_non_slurm_process kenv pid pinfo) ! 3 = SendSignal SIGKILL pid"
    by (simp add: kill_order)
next
  assume ok: "graceful kenv = None \<and> (alive kenv \<longrightarrow> force kenv = None) \<and> log_append kenv = None"
  let ?evs = "fst (kill_non_slurm_process kenv pid pinfo)"
  let ?txt = "build_log_message (current_time kenv) pid pinfo
                   @ (if alive kenv then force_marker else [])"
  from ok have lg: "filter is_log ?evs = [AppendLog ?txt]"
    and ex: "snd (kill_non_slurm_process kenv pid pinfo) = None"
    by (simp_all add: kill_success_log)
  have "SendSignal SIGKILL pid \<in> set (filter is_signal ?evs) \<longleftrightarrow> alive kenv"
    using ok by (simp add: kill_signals)
  then have sent: "SendSignal SIGKILL pid \<in> set ?evs \<longleftrightarrow> alive kenv" by simp
  have "suffix force_marker ?txt \<longleftrightarrow> alive kenv"
    by (simp add: marker_not_in_plain_record marker_in_forced_record)
  with sent lg ex
  show "\<exists>written.
          filter is_log ?evs = [AppendLog written]
          \<and> written = ?txt
          \<and> (suffix force_marker written \<longleftrightarrow> SendSignal SIGKILL pid \<in> set ?evs)
          \<and> snd (kill_non_slurm_process kenv pid pinfo) = None"
    by blast
qed

theorem C7_witness:
  "graceful stubborn_kill = None \<and> alive stubborn_kill \<and> force stubborn_kill = None
   \<and> log_append stubborn_kill = None
   \<and> filter is_signal (fst (kill_non_slurm_process stubborn_kill 6000 bob_info))
       = [SendSignal SIGTERM 6000, SendSignal SIGKILL 6000]
   \<and> filter is_wait (fst (kill_non_slurm_process stubborn_kill 6000 bob_info)) = [Sleep 5]
   \<and> filter is_log (fst (kill_non_slurm_process stubborn_kill 6000 bob_info))
       = [AppendLog (build_log_message (current_time stubborn_kill) 6000 bob_info @ force_marker)]"
proof -
  have h: "graceful stubborn_kill = None" "alive stubborn_kill" "force stubborn_kill = None"
    "log_append stubborn_kill = None"
    by (simp_all add: stubborn_kill_def scenario_kill_def)
  from C7_two_phase_termination [of stubborn_kill 6000 bob_info] h show ?thesis
    by simp
qed

text \<open>
  C1 (as amended). When the graceful signal cannot be sent, which is what happens when the
  process has already exited, the reclamation stops there: it prints and appends to the
  log the line \<open>Error killing PID <pid>: <reason>\<close>, writes no kill record, does not wait
  and sends no forced signal, and returns without raising.
\<close>

theorem C1_graceful_failure_recorded_as_error:
  assumes "graceful kenv = Some msg" and "log_append kenv = None"
  shows "kill_non_slurm_process kenv pid pinfo =
           ([SendSignal SIGTERM pid,
             Print (''Error killing PID '' @ py_str pid @ '': '' @ msg @ nl),
             AppendLog (''Error killing PID '' @ py_str pid @ '': '' @ msg @ nl)], None)"
  using assms by (simp add: kill_cases kill_handler_def after_def Let_def)

theorem C1_witness:
  "graceful vanished_kill = Some ''exit status 1'' \<and> log_append vanished_kill = None
   \<and> kill_non_slurm_process vanished_kill 8000 bob_info =
       ([SendSignal SIGTERM 8000,
         Print (''Error killing PID '' @ py_str 8000 @ '': '' @ ''exit status 1'' @ nl),
         AppendLog (''Error killing PID '' @ py_str 8000 @ '': '' @ ''exit status 1'' @ nl)], None)"
proof -
  have g: "graceful vanished_kill = Some ''exit status 1''"
    by (simp add: vanished_kill_def)
  have l: "log_append vanished_kill = None"
    by (simp add: vanished_kill_def scenario_kill_def)
  from C1_graceful_failure_recorded_as_error [OF g l, of 8000 bob_info] g l show ?thesis
    by simp
qed

text \<open>
  C1 as stated fails: for pid 8000, gone before the graceful signal is sent (Scenario E),
  the only line written to the log is the error line, and the kill record is not written.
\<close>

theorem C1_counterexample:
  "fst (kill_non_slurm_process vanished_kill 8000 bob_info) =
     [SendSignal SIGTERM 8000,
      Print (''Error killing PID 8000: exit status 1'' @ nl),
      AppendLog (''Error killing PID 8000: exit status 1'' @ nl)]
   \<and> AppendLog (build_log_message (current_time vanished_kill) 8000 bob_info)
       \<notin> set (fst (kill_non_slurm_process vanished_kill 8000 bob_info))"
  by code_simp

section \<open>Exit status\<close>


section \<open>Attribution\<close>

lemma entry_fields:
  assumes "e \<in> set (analyze_body env)"
  shows "e_container e = find_container env (e_pid e) (get_container_info env)"
    and "e_slurm_job_id e =
           find_job env (e_pid e) (e_container e)
             (gpu_specific_jobs (get_slurm_jobs env) (e_gpu e))"
    and "e_slurm_status e = slurm_status_of (e_slurm_job_id e)"
    and "e_process_type e = (if e_container e \<noteq> None then ''Container'' else ''Bare Metal'')"
proof -
  from entries_of_analyze_body [OF assms] obtain pm
    where e: "e = process_entry env (e_gpu e) (gpu_specific_jobs (get_slurm_jobs env) (e_gpu e))
                    (get_container_info env) pm" by blast
  have p: "e_pid e = fst pm"
    by (subst e) (simp add: process_entry_def Let_def)
  show c: "e_container e = find_container env (e_pid e) (get_container_info env)"
    unfolding p by (subst e) (simp add: process_entry_def Let_def)
  show j: "e_slurm_job_id e =
           find_job env (e_pid e) (e_container e)
             (gpu_specific_jobs (get_slurm_jobs env) (e_gpu e))"
    unfolding c unfolding p by (subst e) (simp add: process_entry_def Let_def)
  show "e_slurm_status e = slurm_status_of (e_slurm_job_id e)"
    unfolding j c unfolding p by (subst e) (simp add: process_entry_def Let_def)
  show "e_process_type e = (if e_container e \<noteq> None then ''Container'' else ''Bare Metal'')"
    unfolding c unfolding p by (subst e) (simp add: process_entry_def Let_def)
qed


lemma orphan_iff_no_job:
  assumes "e \<in> set (analyze_body env)"
  shows "classification_of e = ORPHAN \<longleftrightarrow> e_slurm_job_id e = None"
proof -
  have "e_slurm_job_id e \<noteq> Some []"
    using find_job_id_nonempty [of env "e_pid e" "e_container e" "e_gpu e" "[]"]
    by (auto simp: entry_fields(2) [OF assms])
  then have "e_slurm_status e = ''Non-SLURM'' \<longleftrightarrow> e_slurm_job_id e = None"
    by (simp add: entry_fields(3) [OF assms] slurm_status_of_Non_SLURM)
  then show ?thesis by (simp add: classification_of_def)
qed




lemma find_job_candidate:
  assumes "find_job env pid c jobs = Some job_id"
  shows "\<exists>info. (job_id, info) \<in> set jobs \<and> accepts env pid c (job_id, info)"
proof -
  from assms obtain x where x: "find (accepts env pid c) jobs = Some x" and j: "job_id = fst x"
    by (auto simp: find_job_first)
  from x have "x \<in> set jobs" and "accepts env pid c x"
    by (auto simp: find_Some_iff)
  with j show ?thesis by (cases x) auto
qed

text \<open>
  C6. For every entry classified SCHEDULER\_OWNED or CONTAINER\_SCHEDULER\_OWNED, the index
  list of the job it is attributed to holds the device of the entry. The search for an
  owner runs over the jobs of that device only: a job whose index list does not hold the
  device is not among the candidates and is never the job found.
\<close>

theorem C6_attributed_job_holds_device:
  assumes m: "e \<in> set (analyze_body env)"
  shows "(classification_of e \<noteq> ORPHAN \<longrightarrow>
            (\<exists>job_id info. e_slurm_job_id e = Some job_id
               \<and> map_of (get_slurm_jobs env) job_id = Some info
               \<and> int (e_gpu e) \<in> set (gpu_indices info)))
         \<and> e_slurm_job_id e =
             find_job env (e_pid e) (e_container e)
               (gpu_specific_jobs (get_slurm_jobs env) (e_gpu e))
         \<and> (\<forall>job_id info.
               (job_id, info) \<in> set (get_slurm_jobs env)
               \<and> int (e_gpu e) \<notin> set (gpu_indices info) \<longrightarrow>
                 (job_id, info) \<notin> set (gpu_specific_jobs (get_slurm_jobs env) (e_gpu e))
                 \<and> e_slurm_job_id e \<noteq> Some job_id)"
proof -
  let ?cands = "gpu_specific_jobs (get_slurm_jobs env) (e_gpu e)"
  note j = entry_fields(2) [OF m]
  have found: "map_of (get_slurm_jobs env) job_id = Some info \<and> int (e_gpu e) \<in> set (gpu_indices info)"
    if "(job_id, info) \<in> set ?cands" for job_id info
  proof -
    from that have "(job_id, info) \<in> set (get_slurm_jobs env)" and g: "int (e_gpu e) \<in> set (gpu_indices info)"
      by (auto simp: gpu_specific_jobs_def)
    then have "map_of (get_slurm_jobs env) job_id = Some info"
      by (simp add: get_slurm_jobs_distinct)
    with g show ?thesis by simp
  qed
  have a: "\<exists>job_id info. e_slurm_job_id e = Some job_id
           \<and> map_of (get_slurm_jobs env) job_id = Some info
           \<and> int (e_gpu e) \<in> set (gpu_indices info)"
    if "classification_of e \<noteq> ORPHAN"
  proof -
    from that obtain job_id where s: "e_slurm_job_id e = Some job_id"
      by (auto simp: orphan_iff_no_job [OF m])
    with j find_job_candidate [of env "e_pid e" "e_container e" ?cands job_id]
    obtain info where "(job_id, info) \<in> set ?cands" by auto
    from found [OF this] s show ?thesis by blast
  qed
  have c: "(job_id, info) \<notin> set ?cands \<and> e_slurm_job_id e \<noteq> Some job_id"
    if h: "(job_id, info) \<in> set (get_slurm_jobs env) \<and> int (e_gpu e) \<notin> set (gpu_indices info)"
    for job_id info
  proof
    from h show "(job_id, info) \<notin> set ?cands" by (simp add: gpu_specific_jobs_def)
    show "e_slurm_job_id e \<noteq> Some job_id"
    proof
      assume s: "e_slurm_job_id e = Some job_id"
      with j find_job_candidate [of env "e_pid e" "e_container e" ?cands job_id]
      obtain info' where i: "(job_id, info') \<in> set ?cands" by auto
      from found [OF i] have "map_of (get_slurm_jobs env) job_id = Some info'"
        and g: "int (e_gpu e) \<in> set (gpu_indices info')" by simp_all
      moreover from h have "map_of (get_slurm_jobs env) job_id = Some info"
        by (simp add: get_slurm_jobs_distinct)
      ultimately have "info' = info" by simp
      with g h show False by simp
    qed
  qed
  from a j c show ?thesis by blast
qed

theorem C6_witness:
  "analyze_body scenario_env ! 0 \<in> set (analyze_body scenario_env)
   \<and> classification_of (analyze_body scenario_env ! 0) \<noteq> ORPHAN
   \<and> (\<exists>job_id info. e_slurm_job_id (analyze_body scenario_env ! 0) = Some job_id
         \<and> map_of (get_slurm_jobs scenario_env) job_id = Some info
         \<and> int (e_gpu (analyze_body scenario_env ! 0)) \<in> set (gpu_indices info))"
proof -
  have m: "analyze_body scenario_env ! 0 \<in> set (analyze_body scenario_env)" by code_simp
  have c: "classification_of (analyze_body scenario_env ! 0) \<noteq> ORPHAN" by code_simp
  from C6_attributed_job_holds_device [OF m] m c
  show ?thesis by blast
qed

text \<open>
  C5. The job an entry is attributed to is the first candidate, in listing order, for which
  the process-tree test succeeds and the ownership identity matches (\<open>accepts\<close>); the
  entry is ORPHAN exactly when no candidate satisfies both, CONTAINER\_SCHEDULER\_OWNED
  when a job is found for a process inside a container, and SCHEDULER\_OWNED when a job is
  found for a bare-metal process.
\<close>

theorem C5_first_accepted_candidate_wins:
  assumes m: "e \<in> set (analyze_body env)"
  shows "e_slurm_job_id e =
           map_option fst (find (accepts env (e_pid e) (e_container e))
                             (gpu_specific_jobs (get_slurm_jobs env) (e_gpu e)))
         \<and> (classification_of e = ORPHAN \<longleftrightarrow>
              (\<forall>j \<in> set (gpu_specific_jobs (get_slurm_jobs env) (e_gpu e)).
                 \<not> accepts env (e_pid e) (e_container e) j))
         \<and> (classification_of e = CONTAINER_SCHEDULER_OWNED \<longleftrightarrow>
              e_slurm_job_id e \<noteq> None \<and> e_container e \<noteq> None)
         \<and> (classification_of e = SCHEDULER_OWNED \<longleftrightarrow>
              e_slurm_job_id e \<noteq> None \<and> e_container e = None)"
proof (intro conjI)
  let ?cands = "gpu_specific_jobs (get_slurm_jobs env) (e_gpu e)"
  show j: "e_slurm_job_id e = map_option fst (find (accepts env (e_pid e) (e_container e)) ?cands)"
    by (simp add: entry_fields(2) [OF m] find_job_first)
  have o: "classification_of e = ORPHAN \<longleftrightarrow> e_slurm_job_id e = None"
    by (rule orphan_iff_no_job [OF m])
  have n: "e_slurm_job_id e = None \<longleftrightarrow>
             (\<forall>j \<in> set ?cands. \<not> accepts env (e_pid e) (e_container e) j)"
    by (auto simp: j find_None_iff)
  from o n show "classification_of e = ORPHAN \<longleftrightarrow>
                   (\<forall>j \<in> set ?cands. \<not> accepts env (e_pid e) (e_container e) j)"
    by (rule trans)
  have t: "e_process_type e = ''Container'' \<longleftrightarrow> e_container e \<noteq> None"
    by (simp add: entry_fields(4) [OF m])
  from o t show "classification_of e = CONTAINER_SCHEDULER_OWNED \<longleftrightarrow>
                   e_slurm_job_id e \<noteq> None \<and> e_container e \<noteq> None"
    by (auto simp: classification_of_def split: if_splits)
  from o t show "classification_of e = SCHEDULER_OWNED \<longleftrightarrow>
                   e_slurm_job_id e \<noteq> None \<and> e_container e = None"
    by (auto simp: classification_of_def split: if_splits)
qed

theorem C5_witness:
  "analyze_body scenario_env ! 1 \<in> set (analyze_body scenario_env)
   \<and> e_slurm_job_id (analyze_body scenario_env ! 1) = Some ''456''
   \<and> e_slurm_job_id (analyze_body scenario_env ! 1) =
       map_option fst
         (find (accepts scenario_env (e_pid (analyze_body scenario_env ! 1))
                  (e_container (analyze_body scenario_env ! 1)))
            (gpu_specific_jobs (get_slurm_jobs scenario_env)
               (e_gpu (analyze_body scenario_env ! 1))))
   \<and> classification_of (analyze_body scenario_env ! 1) = CONTAINER_SCHEDULER_OWNED"
proof -
  have m: "analyze_body scenario_env ! 1 \<in> set (analyze_body scenario_env)" by code_simp
  have v: "e_slurm_job_id (analyze_body scenario_env ! 1) = Some ''456''" by code_simp
  have c: "e_container (analyze_body scenario_env ! 1) \<noteq> None" by code_simp
  note t = C5_first_accepted_candidate_wins [OF m]
  from t have j: "e_slurm_job_id (analyze_body scenario_env ! 1) =
       map_option fst
         (find (accepts scenario_env (e_pid (analyze_body scenario_env ! 1))
                  (e_container (analyze_body scenario_env ! 1)))
            (gpu_specific_jobs (get_slurm_jobs scenario_env)
               (e_gpu (analyze_body scenario_env ! 1))))"
    by (rule conjunct1)
  from v have jn: "e_slurm_job_id (analyze_body scenario_env ! 1) \<noteq> None"
    by (simp only: option.distinct not_False_eq_True)
  have k: "classification_of (analyze_body scenario_env ! 1) = CONTAINER_SCHEDULER_OWNED"
    by (rule iffD2 [OF t [THEN conjunct2, THEN conjunct2, THEN conjunct1] conjI [OF jn c]])
  show ?thesis by (intro conjI m v j k)
qed

section \<open>Container membership\<close>

lemma find_container_split:
  assumes "py_in (py_str pid) (docker_top env cid)"
    and "\<forall>c \<in> set before. \<not> py_in (py_str pid) (docker_top env (fst c))"
  shows "find_container env pid (before @ (cid, info) # rest) = Some info"
  using assms by (induction before) auto

text \<open>
  C4 (as amended). When the process listings of several containers contain the pid, the
  entry is given the metadata of the first of them in the order of the container listing,
  whatever the later containers list; nothing is signalled and the process counts as
  inside that container.
\<close>

theorem C4_first_claiming_container_wins:
  assumes "e \<in> set (analyze_body env)"
    and "get_container_info env = before @ (cid, info) # rest"
    and "py_in (py_str (e_pid e)) (docker_top env cid)"
    and "\<forall>c \<in> set before. \<not> py_in (py_str (e_pid e)) (docker_top env (fst c))"
  shows "e_container e = Some info \<and> e_process_type e = ''Container''"
proof -
  have "e_container e = Some info"
    by (simp add: entry_fields(1) [OF assms(1)] assms(2) find_container_split [OF assms(3,4)])
  then show ?thesis by (simp add: entry_fields(4) [OF assms(1)])
qed

theorem C4_witness:
  "analyze_body (container_env ''root 7000'' ''root 7000'') ! 0
     \<in> set (analyze_body (container_env ''root 7000'' ''root 7000''))
   \<and> get_container_info (container_env ''root 7000'' ''root 7000'')
       = [] @ (''c1'', c1_record) # [(''c2'', c2_record)]
   \<and> py_in (py_str (e_pid (analyze_body (container_env ''root 7000'' ''root 7000'') ! 0)))
        (docker_top (container_env ''root 7000'' ''root 7000'') ''c1'')
   \<and> py_in (py_str (e_pid (analyze_body (container_env ''root 7000'' ''root 7000'') ! 0)))
        (docker_top (container_env ''root 7000'' ''root 7000'') ''c2'')
   \<and> e_container (analyze_body (container_env ''root 7000'' ''root 7000'') ! 0) = Some c1_record"
proof -
  let ?env = "container_env ''root 7000'' ''root 7000''"
  have m: "analyze_body ?env ! 0 \<in> set (analyze_body ?env)" by code_simp
  have g: "get_container_info ?env = [] @ (''c1'', c1_record) # [(''c2'', c2_record)]"
    by code_simp
  have h1: "py_in (py_str (e_pid (analyze_body ?env ! 0))) (docker_top ?env ''c1'')"
    by code_simp
  have h2: "py_in (py_str (e_pid (analyze_body ?env ! 0))) (docker_top ?env ''c2'')"
    by code_simp
  have n: "\<forall>c \<in> set []. \<not> py_in (py_str (e_pid (analyze_body ?env ! 0))) (docker_top ?env (fst c))"
    by simp
  from C4_first_claiming_container_wins [OF m g h1 n]
  have "e_container (analyze_body ?env ! 0) = Some c1_record" by (rule conjunct1)
  with m g h1 h2 show ?thesis by (intro conjI)
qed

text \<open>
  C4 as stated fails: pid 7000 is in the process listing of both c1 and c2, and the entry
  is not left without a container: it carries the metadata of c1 and is typed Container.
\<close>

theorem C4_counterexample:
  "py_in (py_str 7000) (docker_top (container_env ''root 7000'' ''root 7000'') ''c1'')
   \<and> py_in (py_str 7000) (docker_top (container_env ''root 7000'' ''root 7000'') ''c2'')
   \<and> map fst (get_container_info (container_env ''root 7000'' ''root 7000'')) = [''c1'', ''c2'']
   \<and> map e_pid (analyze_body (container_env ''root 7000'' ''root 7000'')) = [7000]
   \<and> map e_container (analyze_body (container_env ''root 7000'' ''root 7000'')) = [Some c1_record]
   \<and> map e_process_type (analyze_body (container_env ''root 7000'' ''root 7000'')) = [''Container'']"
  by code_simp

text \<open>
  C10. The container of an entry is the first container, in listing order, whose process
  listing has the decimal string of the pid as a contiguous substring anywhere. So for
  some inputs a pid is attributed to a container that does not run it: pid 7000 is
  attributed to c1, whose listing holds only the pid 17000.
\<close>

theorem C10_container_membership_is_substring_test:
  "(e \<in> set (analyze_body env) \<longrightarrow>
      e_container e =
        map_option snd
          (find (\<lambda>c. sublist (py_str (e_pid e)) (docker_top env (fst c)))
             (get_container_info env)))
   \<and> map e_pid (analyze_body (container_env (''UID PID PPID'' @ nl @ ''root 17000 1'') [])) = [7000]
   \<and> map e_container (analyze_body (container_env (''UID PID PPID'' @ nl @ ''root 17000 1'') []))
       = [Some c1_record]"
proof (intro conjI impI)
  assume m: "e \<in> set (analyze_body env)"
  show "e_container e =
        map_option snd
          (find (\<lambda>c. sublist (py_str (e_pid e)) (docker_top env (fst c)))
             (get_container_info env))"
    by (simp add: entry_fields(1) [OF m] find_container_first py_in_sublist)
next
  show "map e_pid (analyze_body (container_env (''UID PID PPID'' @ nl @ ''root 17000 1'') [])) = [7000]"
    by code_simp
next
  show "map e_container (analyze_body (container_env (''UID PID PPID'' @ nl @ ''root 17000 1'') []))
       = [Some c1_record]"
    by code_simp
qed

theorem C10_witness:
  "analyze_body scenario_env ! 1 \<in> set (analyze_body scenario_env)
   \<and> e_container (analyze_body scenario_env ! 1) =
        map_option snd
          (find (\<lambda>c. sublist (py_str (e_pid (analyze_body scenario_env ! 1)))
                       (docker_top scenario_env (fst c)))
             (get_container_info scenario_env))"
proof -
  have m: "analyze_body scenario_env ! 1 \<in> set (analyze_body scenario_env)" by code_simp
  from C10_container_membership_is_substring_test [of "analyze_body scenario_env ! 1" scenario_env,
      THEN conjunct1, THEN mp, OF m] m
  show ?thesis by (intro conjI)
qed

section \<open>The collectors\<close>

lemma collect_containers_built:
  assumes "\<forall>(cid, r) \<in> set acc.
             \<exists>info. docker_inspect env cid = Some info \<and> container_record info = Inr r"
    and "(cid, r) \<in> set (collect_containers env acc cids)"
  shows "\<exists>info. docker_inspect env cid = Some info \<and> container_record info = Inr r"
  using assms
proof (induction cids arbitrary: acc)
  case Nil
  then show ?case by auto
next
  case (Cons c cids)
  show ?case
  proof (cases "c = []")
    case True
    with Cons show ?thesis by simp
  next
    case False
    show ?thesis
    proof (cases "docker_inspect env c")
      case None
      with False Cons show ?thesis by simp
    next
      case (Some info)
      show ?thesis
      proof (cases "container_record info")
        case (Inl x)
        with False Some Cons show ?thesis by simp
      next
        case (Inr built)
        have "\<forall>(cid, r) \<in> set (dict_set acc c built).
                \<exists>info. docker_inspect env cid = Some info \<and> container_record info = Inr r"
          using Cons.prems(1) Some Inr by (auto dest!: dict_set_entries)
        from Cons.IH [OF this] Cons.prems(2) False Some Inr show ?thesis by simp
      qed
    qed
  qed
qed

lemma container_record_user:
  assumes "container_record info = Inr r"
  shows "if Mounts info = [] then c_user r = ''unknown''
         else 2 < length (py_split ''/'' (Source (hd (Mounts info))))
              \<and> c_user r = py_split ''/'' (Source (hd (Mounts info))) ! 2"
  using assms
  by (auto simp: container_record_def py_index_def Let_def split: list.splits if_splits sum.splits)

text \<open>
  C9. Every record the container collector returns was built from the inspection of its
  container, and its owner is the sentinel \<open>unknown\<close> when the container has no mounts,
  and otherwise the piece at index 2 of the source path of the first mount split at
  \<open>/\<close> (\<open>carol\<close> for \<open>/home/carol/data\<close>), which then exists. The owner is a
  string in either case.
\<close>

theorem C9_owner_user_from_first_mount:
  assumes "(cid, r) \<in> set (get_container_info env)"
  shows "\<exists>info. docker_inspect env cid = Some info
           \<and> (if Mounts info = [] then c_user r = ''unknown''
               else 2 < length (py_split ''/'' (Source (hd (Mounts info))))
                    \<and> c_user r = py_split ''/'' (Source (hd (Mounts info))) ! 2)"
proof -
  have "\<exists>info. docker_inspect env cid = Some info \<and> container_record info = Inr r"
    using collect_containers_built [of "[]" env cid r] assms
    by (simp add: get_container_info_def)
  then obtain info where "docker_inspect env cid = Some info" and "container_record info = Inr r"
    by blast
  with container_record_user [of info r] show ?thesis by blast
qed

theorem C9_witness:
  "(''c1'', c1_record) \<in> set (get_container_info (container_env [] []))
   \<and> (''c2'', c2_record) \<in> set (get_container_info (container_env [] []))
   \<and> c_user c1_record = ''carol''
   \<and> c_user c2_record = ''unknown''
   \<and> (\<exists>info. docker_inspect (container_env [] []) ''c1'' = Some info
         \<and> (if Mounts info = [] then c_user c1_record = ''unknown''
             else 2 < length (py_split ''/'' (Source (hd (Mounts info))))
                  \<and> c_user c1_record = py_split ''/'' (Source (hd (Mounts info))) ! 2))"
proof -
  have m1: "(''c1'', c1_record) \<in> set (get_container_info (container_env [] []))" by code_simp
  have m2: "(''c2'', c2_record) \<in> set (get_container_info (container_env [] []))" by code_simp
  have u1: "c_user c1_record = ''carol''" by (simp add: c1_record_def)
  have u2: "c_user c2_record = ''unknown''" by (simp add: c2_record_def)
  from m1 m2 u1 u2 C9_owner_user_from_first_mount [OF m1] show ?thesis by (intro conjI)
qed








end
